theory Spec2Isabelle
  imports Main
begin

section \<open>The transcript scraper (transcript.py)\<close>

text \<open>
  \<^verbatim>\<open>get_transcript(video_id)\<close> asks the youtube-transcript-api library for a
  transcript of one video and joins its segments; \<^verbatim>\<open>main\<close> runs it over the
  videos of a channel and writes one record per video to a text file.

  The library is not part of the repository. Every call the code makes into it is a
  parameter of the model (the record \<open>upstream\<close>): a function from the call's arguments
  to what the call does, which is either to raise or to return. The objects the library
  hands out (the transcript list of a video, a transcript) are opaque: the types
  \<open>'l\<close> and \<open>'t\<close>. An answer depends on the arguments of the call only.
\<close>

subsection \<open>Exceptions\<close>

text \<open>
  The code tells one exception class from the others: \<^verbatim>\<open>AttributeError\<close>, which it
  reads as "this version of the library has no such method". Every other exception is
  kept by its class name. All of them are subclasses of \<^verbatim>\<open>Exception\<close>, so that
  \<^verbatim>\<open>except Exception\<close> and a bare \<^verbatim>\<open>except:\<close> catch the same values here
  (\<^verbatim>\<open>KeyboardInterrupt\<close> and \<^verbatim>\<open>SystemExit\<close> are not failures of the library and
  are outside the model).
\<close>

datatype exn = AttributeError | OtherException string

subsection \<open>The library, as the code calls it\<close>

type_synonym video_id = string

text \<open>
  A segment is a dictionary; the code reads its key \<^verbatim>\<open>'text'\<close> only
  (\<open>entry_text\<close> here, \<open>text\<close> being a keyword of Isabelle).
\<close>

record entry =
  entry_text :: string

record ('l, 't) upstream =
  list_transcripts :: "video_id \<Rightarrow> exn + 'l"
    \<comment> \<open>\<^verbatim>\<open>YouTubeTranscriptApi.list_transcripts(video_id)\<close>\<close>
  find_manually_created_transcript :: "'l \<Rightarrow> string list \<Rightarrow> exn + 't"
    \<comment> \<open>\<^verbatim>\<open>transcript_list.find_manually_created_transcript(codes)\<close>\<close>
  find_generated_transcript :: "'l \<Rightarrow> string list \<Rightarrow> exn + 't"
    \<comment> \<open>\<^verbatim>\<open>transcript_list.find_generated_transcript(codes)\<close>\<close>
  list_of :: "'l \<Rightarrow> exn + 't list"
    \<comment> \<open>\<^verbatim>\<open>list(transcript_list)\<close>, in the library's listing order\<close>
  translate :: "'t \<Rightarrow> string \<Rightarrow> exn + 't"
    \<comment> \<open>\<^verbatim>\<open>transcript.translate(code)\<close>\<close>
  fetch :: "'t \<Rightarrow> exn + entry list"
    \<comment> \<open>\<^verbatim>\<open>transcript.fetch()\<close>\<close>
  api_get_transcript :: "video_id \<Rightarrow> string list option \<Rightarrow> exn + entry list"
    \<comment> \<open>\<^verbatim>\<open>YouTubeTranscriptApi.get_transcript(video_id[, languages=codes])\<close>;
        \<open>None\<close> when the code leaves \<^verbatim>\<open>languages\<close> out\<close>

text \<open>The calls into the library, so that a run can be asked which ones it made.\<close>

datatype ('l, 't) call =
    ListTranscripts video_id
  | FindManuallyCreated 'l "string list"
  | FindGenerated 'l "string list"
  | ListOf 'l
  | Translate 't string
  | Fetch 't
  | ApiGetTranscript video_id "string list option"

subsection \<open>Running code that may raise\<close>

text \<open>
  A piece of code either raises (\<open>Inl\<close>) or yields a value (\<open>Inr\<close>), and makes
  calls into the library on the way; the calls are listed in the order they were made.
\<close>

type_synonym ('a, 'c) run = "(exn + 'a) \<times> 'c list"

definition ret :: "'a \<Rightarrow> ('a, 'c) run" where
  "ret x = (Inr x, [])"

definition upcall :: "'c \<Rightarrow> exn + 'a \<Rightarrow> ('a, 'c) run" where
  "upcall c answer = (answer, [c])"

text \<open>Sequencing: the second piece runs only when the first did not raise.\<close>

definition and_then :: "('a, 'c) run \<Rightarrow> ('a \<Rightarrow> ('b, 'c) run) \<Rightarrow> ('b, 'c) run" where
  "and_then m f =
     (case m of
        (Inl e, cs) \<Rightarrow> (Inl e, cs)
      | (Inr x, cs) \<Rightarrow> (case f x of (r, cs') \<Rightarrow> (r, cs @ cs')))"

text \<open>\<^verbatim>\<open>try: m  except: h\<close> and \<^verbatim>\<open>try: m  except Exception as e: h\<close>.\<close>

definition try_except :: "('a, 'c) run \<Rightarrow> (exn \<Rightarrow> ('a, 'c) run) \<Rightarrow> ('a, 'c) run" where
  "try_except m h =
     (case m of
        (Inl e, cs) \<Rightarrow> (case h e of (r, cs') \<Rightarrow> (r, cs @ cs'))
      | (Inr x, cs) \<Rightarrow> (Inr x, cs))"

text \<open>\<^verbatim>\<open>try: m  except AttributeError: h\<close>: any other exception goes on up.\<close>

definition try_except_AttributeError :: "('a, 'c) run \<Rightarrow> ('a, 'c) run \<Rightarrow> ('a, 'c) run" where
  "try_except_AttributeError m h =
     (case m of
        (Inl e, cs) \<Rightarrow>
          (if e = AttributeError then (case h of (r, cs') \<Rightarrow> (r, cs @ cs')) else (Inl e, cs))
      | (Inr x, cs) \<Rightarrow> (Inr x, cs))"

subsection \<open>get_transcript\<close>

text \<open>
  The inner \<^verbatim>\<open>try\<close> either leaves the function through \<^verbatim>\<open>return None\<close> or falls
  through to the lines that combine the text, with \<^verbatim>\<open>transcript_data\<close> set.
\<close>

datatype 'a flow = Return "string option" | Next 'a

text \<open>Python's \<^verbatim>\<open>sep.join(parts)\<close>.\<close>

fun join :: "string \<Rightarrow> string list \<Rightarrow> string" where
  "join sep [] = []"
| "join sep [x] = x"
| "join sep (x # y # ys) = x @ sep @ join sep (y # ys)"

text \<open>
  Lines 82 to 98, with \<^verbatim>\<open>transcript_list\<close> in hand: the manually created English
  transcript, else the generated one, else the first listed transcript translated to
  English, else \<^verbatim>\<open>return None\<close>. The two bare \<^verbatim>\<open>except:\<close> cover the lookup
  and the fetch of their step. Nothing covers the third step here.
\<close>

definition find_and_fetch ::
  "('l, 't) upstream \<Rightarrow> 'l \<Rightarrow> (entry list option flow, ('l, 't) call) run" where
  "find_and_fetch up transcript_list =
     try_except
       (and_then (upcall (FindManuallyCreated transcript_list [''en''])
                    (find_manually_created_transcript up transcript_list [''en'']))
          (\<lambda>transcript.
        and_then (upcall (Fetch transcript) (fetch up transcript))
          (\<lambda>transcript_data. ret (Next (Some transcript_data)))))
       (\<lambda>_.
        try_except
          (and_then (upcall (FindGenerated transcript_list [''en''])
                       (find_generated_transcript up transcript_list [''en'']))
             (\<lambda>transcript.
           and_then (upcall (Fetch transcript) (fetch up transcript))
             (\<lambda>transcript_data. ret (Next (Some transcript_data)))))
          (\<lambda>_.
           and_then (upcall (ListOf transcript_list) (list_of up transcript_list))
             (\<lambda>available_transcripts.
              case available_transcripts of
                first # _ \<Rightarrow>
                  and_then (upcall (Translate first ''en'') (translate up first ''en''))
                    (\<lambda>transcript.
                  and_then (upcall (Fetch transcript) (fetch up transcript))
                    (\<lambda>transcript_data. ret (Next (Some transcript_data))))
              | [] \<Rightarrow> ret (Return None))))"

text \<open>Lines 80 to 98: the method for newer versions of the library.\<close>

definition newer_api ::
  "('l, 't) upstream \<Rightarrow> video_id \<Rightarrow> (entry list option flow, ('l, 't) call) run" where
  "newer_api up video_id =
     and_then (upcall (ListTranscripts video_id) (list_transcripts up video_id))
       (\<lambda>transcript_list. find_and_fetch up transcript_list)"

text \<open>
  Lines 106 to 111: the loop over the language codes. The first call that does not
  raise sets \<^verbatim>\<open>transcript_data\<close> and breaks; a call that raises is skipped.
\<close>

fun try_language_codes ::
  "('l, 't) upstream \<Rightarrow> video_id \<Rightarrow> string list \<Rightarrow> (entry list option, ('l, 't) call) run" where
  "try_language_codes up video_id [] = ret None"
| "try_language_codes up video_id (lang_code # rest) =
     try_except
       (and_then (upcall (ApiGetTranscript video_id (Some [lang_code]))
                    (api_get_transcript up video_id (Some [lang_code])))
          (\<lambda>transcript_data. ret (Some transcript_data)))
       (\<lambda>_. try_language_codes up video_id rest)"

text \<open>Python's truth value of \<^verbatim>\<open>transcript_data\<close>: \<^verbatim>\<open>None\<close> and \<^verbatim>\<open>[]\<close> are false.\<close>

fun truthy :: "entry list option \<Rightarrow> bool" where
  "truthy None = False"
| "truthy (Some []) = False"
| "truthy (Some (_ # _)) = True"

text \<open>Lines 101 to 118: the method for older versions of the library.\<close>

definition older_api ::
  "('l, 't) upstream \<Rightarrow> video_id \<Rightarrow> (entry list option flow, ('l, 't) call) run" where
  "older_api up video_id =
     and_then (try_language_codes up video_id [''en'', ''en-US'', ''en-GB''])
       (\<lambda>transcript_data.
          if \<not> truthy transcript_data then
            try_except
              (and_then (upcall (ApiGetTranscript video_id None)
                           (api_get_transcript up video_id None))
                 (\<lambda>transcript_data. ret (Next (Some transcript_data))))
              (\<lambda>_. ret (Return None))
          else ret (Next transcript_data))"

text \<open>Lines 120 to 125: combine all text.\<close>

definition combine :: "entry list option \<Rightarrow> string option" where
  "combine transcript_data =
     (if truthy transcript_data
      then Some (join '' '' (map entry_text (the transcript_data)))
      else None)"

text \<open>
  The function: what it returns (\<open>Inr None\<close> for \<^verbatim>\<open>None\<close>, \<open>Inr (Some s)\<close> for
  the text) or raises (\<open>Inl\<close>), and the calls it made. The message the last handler
  prints is not modelled.
\<close>

definition get_transcript ::
  "('l, 't) upstream \<Rightarrow> video_id \<Rightarrow> (string option, ('l, 't) call) run" where
  "get_transcript up video_id =
     try_except
       (and_then (try_except_AttributeError (newer_api up video_id) (older_api up video_id))
          (\<lambda>fl. case fl of
                   Return r \<Rightarrow> ret r
                 | Next transcript_data \<Rightarrow> ret (combine transcript_data)))
       (\<lambda>e. ret None)"

subsection \<open>main: the report\<close>

text \<open>
  \<^verbatim>\<open>main\<close> from line 154 on, with \<^verbatim>\<open>video_data\<close> (the pairs of a video's id and
  title that the channel listing gave) in hand. The file is \<open>written\<close>, the list of
  the strings written to it, one per \<^verbatim>\<open>f.write\<close>, in the order of the writes. The messages
  printed to the console and the pause between two videos are not modelled.
\<close>

definition CHANNEL_NAME :: string where
  "CHANNEL_NAME = ''3Blue1Brown''"

record ('l, 't) report =
  written :: "string list"
  successful :: nat
  failed :: nat
  calls :: "('l, 't) call list"

text \<open>Python's truth value of what \<^verbatim>\<open>get_transcript\<close> returned: \<^verbatim>\<open>None\<close> and \<^verbatim>\<open>''\<close> are false.\<close>

fun got_text :: "string option \<Rightarrow> bool" where
  "got_text None = False"
| "got_text (Some []) = False"
| "got_text (Some (_ # _)) = True"

text \<open>Lines 166 to 177: what is written for one video.\<close>

definition record_lines :: "video_id \<Rightarrow> string \<Rightarrow> string option \<Rightarrow> string list" where
  "record_lines video_id video_title transcript =
     (if got_text transcript then
        [''VIDEO: '' @ video_title @ ''\<newline>'',
         ''URL: https://youtube.com/watch?v='' @ video_id @ ''\<newline>'',
         replicate 30 CHR ''-'' @ ''\<newline>'',
         the transcript,
         ''\<newline>\<newline>'' @ replicate 50 CHR ''='' @ ''\<newline>\<newline>'']
      else
        [''FAILED TO GET TRANSCRIPT: '' @ video_title @ ''\<newline>'',
         ''URL: https://youtube.com/watch?v='' @ video_id @ ''\<newline>'',
         replicate 30 CHR ''-'' @ ''\<newline>\<newline>''])"

text \<open>
  Lines 161 to 180: the loop. An exception that \<^verbatim>\<open>get_transcript\<close> let through would
  end the loop (and \<^verbatim>\<open>main\<close>) there.
\<close>

fun main_loop ::
  "('l, 't) upstream \<Rightarrow> (video_id \<times> string) list \<Rightarrow> ('l, 't) report \<Rightarrow> exn + ('l, 't) report" where
  "main_loop up [] rep = Inr rep"
| "main_loop up ((video_id, video_title) # rest) rep =
     (case get_transcript up video_id of
        (Inl e, cs) \<Rightarrow> Inl e
      | (Inr transcript, cs) \<Rightarrow>
          main_loop up rest
            (if got_text transcript then
               rep\<lparr>written := written rep @ record_lines video_id video_title transcript,
                   successful := successful rep + 1,
                   calls := calls rep @ cs\<rparr>
             else
               rep\<lparr>written := written rep @ record_lines video_id video_title transcript,
                   failed := failed rep + 1,
                   calls := calls rep @ cs\<rparr>))"

text \<open>Lines 154 to 180: the heading of the file, then the loop.\<close>

definition main :: "('l, 't) upstream \<Rightarrow> (video_id \<times> string) list \<Rightarrow> exn + ('l, 't) report" where
  "main up video_data =
     main_loop up video_data
       \<lparr>written = [''Transcripts from '' @ CHANNEL_NAME @ ''\<newline>'',
                replicate 50 CHR ''='' @ ''\<newline>\<newline>''],
        successful = 0, failed = 0, calls = []\<rparr>"

section \<open>Notions the properties are stated with\<close>

text \<open>The segments a call handed to the code, if it is a call that hands out segments and it did not raise.\<close>

fun delivered :: "('l, 't) upstream \<Rightarrow> ('l, 't) call \<Rightarrow> entry list option" where
  "delivered up (Fetch t) = (case fetch up t of Inr segs \<Rightarrow> Some segs | Inl _ \<Rightarrow> None)"
| "delivered up (ApiGetTranscript v codes) =
     (case api_get_transcript up v codes of Inr segs \<Rightarrow> Some segs | Inl _ \<Rightarrow> None)"
| "delivered up _ = None"

text \<open>
  The calls of a step that looks a transcript up (or translates one) and then fetches it:
  the lookup, and the fetch when the lookup did not raise.
\<close>

definition step_calls :: "('l, 't) call \<Rightarrow> exn + 't \<Rightarrow> ('l, 't) call list" where
  "step_calls c found = c # (case found of Inl _ \<Rightarrow> [] | Inr t \<Rightarrow> [Fetch t])"

text \<open>The exception such a step ends with, when the lookup raises or the fetch does.\<close>

definition step_error :: "('l, 't) upstream \<Rightarrow> exn + 't \<Rightarrow> exn option" where
  "step_error up found =
     (case found of
        Inl e \<Rightarrow> Some e
      | Inr t \<Rightarrow> (case fetch up t of Inl e \<Rightarrow> Some e | Inr _ \<Rightarrow> None))"

definition step_fails :: "('l, 't) upstream \<Rightarrow> exn + 't \<Rightarrow> bool" where
  "step_fails up found = (step_error up found \<noteq> None)"

text \<open>What \<^verbatim>\<open>get_transcript\<close> returns (it never raises, see below).\<close>

definition returned :: "('l, 't) upstream \<Rightarrow> video_id \<Rightarrow> string option" where
  "returned up video_id =
     (case fst (get_transcript up video_id) of Inr r \<Rightarrow> r | Inl _ \<Rightarrow> None)"

text \<open>
  The library has no transcript of the video for the code: the listing is empty and the
  two English lookups find nothing; or the listing itself raises; or, with an older
  library (no \<^verbatim>\<open>list_transcripts\<close>), each of the four requests raises.
\<close>

definition no_transcripts :: "('l, 't) upstream \<Rightarrow> video_id \<Rightarrow> bool" where
  "no_transcripts up video_id =
     (case list_transcripts up video_id of
        Inr transcript_list \<Rightarrow>
          isl (find_manually_created_transcript up transcript_list [''en'']) \<and>
          isl (find_generated_transcript up transcript_list [''en'']) \<and>
          list_of up transcript_list = Inr []
      | Inl e \<Rightarrow>
          (if e = AttributeError
           then list_all (\<lambda>codes. isl (api_get_transcript up video_id codes))
                  [Some [''en''], Some [''en-US''], Some [''en-GB''], None]
           else True))"

text \<open>\<open>b\<close> stands somewhere after the first \<open>a\<close> in a list.\<close>

fun comes_after :: "'a \<Rightarrow> 'a \<Rightarrow> 'a list \<Rightarrow> bool" where
  "comes_after a b [] = False"
| "comes_after a b (x # xs) = (if x = a then b \<in> set xs else comes_after a b xs)"

section \<open>A stand-in for the library, for concrete runs\<close>

text \<open>
  The examples below run the code against a small library in the image of
  youtube-transcript-api: a video has tracks, each with a language code, a flag for
  automatically generated ones, what fetching it does, and what translating it to
  another language and fetching the translation does. A lookup goes through the codes
  in turn; the listing is the list of the tracks. No general theorem depends on it.
\<close>

record track =
  language_code :: string
  is_generated :: bool
  fetched :: "exn + entry list"
  translated :: "exn + (exn + entry list)"

fun lookup_track :: "bool \<Rightarrow> track list \<Rightarrow> string list \<Rightarrow> exn + track" where
  "lookup_track generated tracks [] = Inl (OtherException ''NoTranscriptFound'')"
| "lookup_track generated tracks (code # codes) =
     (case find (\<lambda>t. is_generated t = generated \<and> language_code t = code) tracks of
        Some t \<Rightarrow> Inr t
      | None \<Rightarrow> lookup_track generated tracks codes)"

fun lookup_any :: "track list \<Rightarrow> string list \<Rightarrow> exn + track" where
  "lookup_any tracks [] = Inl (OtherException ''NoTranscriptFound'')"
| "lookup_any tracks (code # codes) =
     (case lookup_track False tracks [code] of
        Inr t \<Rightarrow> Inr t
      | Inl _ \<Rightarrow>
          (case lookup_track True tracks [code] of
             Inr t \<Rightarrow> Inr t
           | Inl _ \<Rightarrow> lookup_any tracks codes))"

definition simulated :: "bool \<Rightarrow> (video_id \<times> track list) list \<Rightarrow> (track list, track) upstream" where
  "simulated newer videos =
     \<lparr>list_transcripts =
        (\<lambda>v. if newer
              then (case map_of videos v of
                      Some tracks \<Rightarrow> Inr tracks
                    | None \<Rightarrow> Inl (OtherException ''VideoUnavailable''))
              else Inl AttributeError),
      find_manually_created_transcript = lookup_track False,
      find_generated_transcript = lookup_track True,
      list_of = Inr,
      translate =
        (\<lambda>t code. case translated t of
                     Inl e \<Rightarrow> Inl e
                   | Inr answer \<Rightarrow>
                       Inr \<lparr>language_code = code, is_generated = is_generated t,
                            fetched = answer,
                            translated = Inl (OtherException ''NotTranslatable'')\<rparr>),
      fetch = fetched,
      api_get_transcript =
        (\<lambda>v codes. case map_of videos v of
                      None \<Rightarrow> Inl (OtherException ''VideoUnavailable'')
                    | Some tracks \<Rightarrow>
                        (case lookup_any tracks (case codes of None \<Rightarrow> [''en''] | Some cs \<Rightarrow> cs) of
                           Inl e \<Rightarrow> Inl e
                         | Inr t \<Rightarrow> fetched t))\<rparr>"

definition seg :: "string \<Rightarrow> entry" where
  "seg s = \<lparr>entry_text = s\<rparr>"

definition not_translatable :: "exn + (exn + entry list)" where
  "not_translatable = Inl (OtherException ''NotTranslatable'')"

definition manual_abc :: track where
  "manual_abc = \<lparr>language_code = ''en'', is_generated = False,
     fetched = Inr [seg ''a'', seg ''b'', seg ''c''], translated = not_translatable\<rparr>"

definition auto_en :: track where
  "auto_en = \<lparr>language_code = ''en'', is_generated = True,
     fetched = Inr [seg ''auto'', seg ''captions''], translated = not_translatable\<rparr>"

definition manual_de :: track where
  "manual_de = \<lparr>language_code = ''de'', is_generated = False,
     fetched = Inr [seg ''guten'', seg ''Tag''],
     translated = Inr (Inr [seg ''good'', seg ''day''])\<rparr>"

definition manual_fr :: track where
  "manual_fr = \<lparr>language_code = ''fr'', is_generated = False,
     fetched = Inr [seg ''bonjour''], translated = Inr (Inr [seg ''hello''])\<rparr>"

definition manual_de_fixed :: track where
  "manual_de_fixed = \<lparr>language_code = ''de'', is_generated = False,
     fetched = Inr [seg ''guten'', seg ''Tag''], translated = not_translatable\<rparr>"

definition manual_de_silent :: track where
  "manual_de_silent = \<lparr>language_code = ''de'', is_generated = False,
     fetched = Inr [], translated = Inr (Inr [])\<rparr>"

definition manual_down :: track where
  "manual_down = \<lparr>language_code = ''en'', is_generated = False,
     fetched = Inl (OtherException ''CouldNotRetrieveTranscript''), translated = not_translatable\<rparr>"

definition manual_empty :: track where
  "manual_empty = \<lparr>language_code = ''en'', is_generated = False,
     fetched = Inr [], translated = not_translatable\<rparr>"

definition auto_down :: track where
  "auto_down = \<lparr>language_code = ''en'', is_generated = True,
     fetched = Inl (OtherException ''CouldNotRetrieveTranscript''), translated = not_translatable\<rparr>"

definition auto_empty :: track where
  "auto_empty = \<lparr>language_code = ''en'', is_generated = True,
     fetched = Inr [], translated = not_translatable\<rparr>"

definition manual_en_US :: track where
  "manual_en_US = \<lparr>language_code = ''en-US'', is_generated = False,
     fetched = Inr [seg ''howdy''], translated = Inr (Inl AttributeError)\<rparr>"

text \<open>The videos of the examples, and the library that has them.\<close>

definition demo_videos :: "(video_id \<times> track list) list" where
  "demo_videos =
     [(''both'', [manual_abc, auto_en]),
      (''auto'', [manual_de, auto_en]),
      (''foreign'', [manual_de, manual_fr]),
      (''none'', []),
      (''manual-down'', [manual_down, auto_en]),
      (''manual-empty'', [manual_empty, auto_en]),
      (''auto-down'', [manual_de, auto_down]),
      (''auto-empty'', [manual_de, auto_empty]),
      (''foreign-fixed'', [manual_de_fixed, manual_fr]),
      (''foreign-silent'', [manual_de_silent, manual_fr]),
      (''regional'', [manual_en_US])]"

definition demo :: "(track list, track) upstream" where
  "demo = simulated True demo_videos"

definition demo_older :: "(track list, track) upstream" where
  "demo_older = simulated False demo_videos"

text \<open>
  An older library (no \<^verbatim>\<open>list_transcripts\<close>) whose request for \<open>en\<close> answers with
  zero segments and whose request without a language answers with two segments.
\<close>

definition flaky :: "(nat, nat) upstream" where
  "flaky =
     \<lparr>list_transcripts = (\<lambda>v. Inl AttributeError),
      find_manually_created_transcript = (\<lambda>l codes. Inl (OtherException ''NoTranscriptFound'')),
      find_generated_transcript = (\<lambda>l codes. Inl (OtherException ''NoTranscriptFound'')),
      list_of = (\<lambda>l. Inr []),
      translate = (\<lambda>t code. Inl (OtherException ''NotTranslatable'')),
      fetch = (\<lambda>t. Inl (OtherException ''CouldNotRetrieveTranscript'')),
      api_get_transcript =
        (\<lambda>v codes. if codes = Some [''en''] then Inr []
                    else if codes = None then Inr [seg ''late'', seg ''text'']
                    else Inl (OtherException ''NoTranscriptFound''))\<rparr>"

section \<open>Properties\<close>

subsection \<open>Auxiliary facts\<close>

lemmas run_defs = get_transcript_def try_except_def try_except_AttributeError_def and_then_def
  upcall_def ret_def newer_api_def older_api_def find_and_fetch_def combine_def
lemmas demo_defs = demo_def demo_older_def simulated_def demo_videos_def seg_def not_translatable_def
  manual_abc_def auto_en_def manual_de_def manual_fr_def manual_de_fixed_def manual_de_silent_def
  manual_down_def manual_empty_def auto_down_def auto_empty_def manual_en_US_def

lemma truthy_Some [simp]: "truthy (Some xs) = (xs \<noteq> [])"
  by (cases xs) auto

lemma find_and_fetch_last:
  "find_and_fetch up tlist = (r, cs) \<Longrightarrow>
     cs \<noteq> [] \<and>
     (case delivered up (last cs) of
        Some segs \<Rightarrow> r = Inr (Next (Some segs))
      | None \<Rightarrow> r = Inr (Return None) \<or> isl r)"
  by (auto simp: find_and_fetch_def try_except_def and_then_def upcall_def ret_def
      split: prod.splits sum.splits list.splits)

lemma newer_api_last:
  assumes run: "newer_api up v = (r, cs)"
  shows "cs \<noteq> [] \<and>
     (case delivered up (last cs) of
        Some segs \<Rightarrow> r = Inr (Next (Some segs))
      | None \<Rightarrow> r = Inr (Return None) \<or> isl r)"
proof (cases "list_transcripts up v")
  case (Inl e)
  with run show ?thesis
    by (auto simp: newer_api_def and_then_def upcall_def)
next
  case (Inr tlist)
  obtain r' cs' where ff: "find_and_fetch up tlist = (r', cs')"
    by (cases "find_and_fetch up tlist")
  from run Inr ff have "r = r'" and "cs = ListTranscripts v # cs'"
    by (auto simp: newer_api_def and_then_def upcall_def)
  with find_and_fetch_last [OF ff] show ?thesis
    by auto
qed

lemma try_language_codes_last:
  "try_language_codes up v codes = (r, cs) \<Longrightarrow>
     (cs = [] \<and> r = Inr None) \<or>
     (cs \<noteq> [] \<and>
      (case delivered up (last cs) of Some segs \<Rightarrow> r = Inr (Some segs) | None \<Rightarrow> r = Inr None))"
  by (induction codes arbitrary: r cs)
     (auto simp: try_except_def and_then_def upcall_def ret_def split: prod.splits sum.splits)

lemma older_api_last:
  assumes run: "older_api up v = (r, cs)"
  shows "cs \<noteq> [] \<and>
     (case delivered up (last cs) of
        Some segs \<Rightarrow> r = Inr (Next (Some segs))
      | None \<Rightarrow> r = Inr (Return None))"
proof -
  obtain r' cs' where codes: "try_language_codes up v [''en'', ''en-US'', ''en-GB''] = (r', cs')"
    by (cases "try_language_codes up v [''en'', ''en-US'', ''en-GB'']")
  from try_language_codes_last [OF codes] run codes show ?thesis
    by (cases "api_get_transcript up v None")
       (auto simp: older_api_def and_then_def try_except_def upcall_def ret_def
             simp del: try_language_codes.simps split: option.splits if_splits)
qed

text \<open>What the function returns is decided by its last call into the library.\<close>

lemma get_transcript_last:
  assumes run: "get_transcript up v = (r, cs)"
  shows "cs \<noteq> [] \<and>
     r = Inr (case delivered up (last cs) of None \<Rightarrow> None | Some segs \<Rightarrow> combine (Some segs))"
proof -
  obtain rn cn where new: "newer_api up v = (rn, cn)"
    by (cases "newer_api up v")
  obtain ro co where old: "older_api up v = (ro, co)"
    by (cases "older_api up v")
  note n = newer_api_last [OF new] and o = older_api_last [OF old]
  show ?thesis
  proof (cases "rn = Inl AttributeError")
    case True
    with run new old have "cs = cn @ co"
      and "r = Inr (case ro of Inr (Next d) \<Rightarrow> combine d | Inr (Return x) \<Rightarrow> x | Inl _ \<Rightarrow> None)"
      by (auto simp: get_transcript_def try_except_def try_except_AttributeError_def
          and_then_def ret_def split: sum.splits flow.splits)
    with o show ?thesis
      by (auto split: option.splits)
  next
    case False
    with run new have "cs = cn"
      and "r = Inr (case rn of Inr (Next d) \<Rightarrow> combine d | Inr (Return x) \<Rightarrow> x | Inl _ \<Rightarrow> None)"
      by (auto simp: get_transcript_def try_except_def try_except_AttributeError_def
          and_then_def ret_def split: sum.splits flow.splits)
    with n show ?thesis
      by (auto split: option.splits sum.splits)
  qed
qed

lemma combine_Some: "combine (Some segs) = (if segs = [] then None else Some (join '' '' (map entry_text segs)))"
  by (simp add: combine_def)


lemma get_transcript_returns: "\<exists>r. fst (get_transcript up video_id) = Inr r"
  by (auto simp: get_transcript_def try_except_def ret_def split: prod.splits sum.splits)

lemma step_error_Some:
  "step_error up found = Some e \<Longrightarrow>
     found = Inl e \<or> (\<exists>t. found = Inr t \<and> fetch up t = Inl e)"
  by (auto simp: step_error_def split: sum.splits)

lemma join_append:
  "xs \<noteq> [] \<Longrightarrow> ys \<noteq> [] \<Longrightarrow> join sep (xs @ ys) = join sep xs @ sep @ join sep ys"
  by (induction sep xs rule: join.induct) (auto simp: neq_Nil_conv)

lemma get_transcript_calls:
  assumes "list_transcripts up v = Inr tlist"
  shows "\<exists>more. snd (get_transcript up v) =
            ListTranscripts v # snd (find_and_fetch up tlist) @ more"
  using assms
  by (cases "find_and_fetch up tlist")
     (auto simp: get_transcript_def newer_api_def and_then_def try_except_def
        try_except_AttributeError_def upcall_def ret_def
        split: prod.splits sum.splits flow.splits)

lemma find_and_fetch_second:
  assumes "step_fails up (find_manually_created_transcript up tlist [''en''])"
  shows "FindGenerated tlist [''en''] \<in> set (snd (find_and_fetch up tlist))"
  using assms
  by (auto simp: find_and_fetch_def step_fails_def step_error_def and_then_def try_except_def
        upcall_def ret_def split: prod.splits sum.splits list.splits)

lemma find_and_fetch_third:
  assumes "step_fails up (find_manually_created_transcript up tlist [''en''])"
    and "step_fails up (find_generated_transcript up tlist [''en''])"
  shows "ListOf tlist \<in> set (snd (find_and_fetch up tlist))"
  using assms
  by (auto simp: find_and_fetch_def step_fails_def step_error_def and_then_def try_except_def
        upcall_def ret_def split: prod.splits sum.splits list.splits)

lemma main_loop_closed_form:
  "main_loop up video_data rep =
     Inr (rep\<lparr>written := written rep @
                  concat (map (\<lambda>(video_id, video_title).
                                 record_lines video_id video_title (returned up video_id)) video_data),
              successful := successful rep +
                  length (filter (\<lambda>(video_id, video_title). got_text (returned up video_id)) video_data),
              failed := failed rep +
                  length (filter (\<lambda>(video_id, video_title). \<not> got_text (returned up video_id)) video_data),
              calls := calls rep @
                  concat (map (\<lambda>(video_id, video_title). snd (get_transcript up video_id)) video_data)\<rparr>)"
proof (induction video_data arbitrary: rep)
  case Nil
  show ?case by simp
next
  case (Cons video rest)
  obtain video_id video_title where video: "video = (video_id, video_title)"
    by (cases video)
  obtain r cs where run: "get_transcript up video_id = (Inr r, cs)"
    using get_transcript_returns [of up video_id] by (cases "get_transcript up video_id") auto
  then have r: "returned up video_id = r"
    by (simp add: returned_def)
  show ?case
    by (simp add: video run r Cons.IH)
qed

lemma dashes: "replicate 30 CHR ''-'' = ''------------------------------''"
  by code_simp

lemma equals: "replicate 50 CHR ''='' = ''==================================================''"
  by code_simp

subsection \<open>The claims\<close>

text \<open>
  C1, as amended. When the lookup of a manually created English transcript succeeds and
  the fetch of that transcript succeeds, \<^verbatim>\<open>get_transcript\<close> makes three calls (the
  listing, that lookup, that fetch) and no other: it tries neither the generated
  transcript nor a translation. It returns the texts of that transcript's segments
  joined, when there is at least one segment, and \<^verbatim>\<open>None\<close> when there is none.
\<close>

theorem manual_transcript_first:
  assumes "list_transcripts up video_id = Inr transcript_list"
    and "find_manually_created_transcript up transcript_list [''en''] = Inr transcript"
    and "fetch up transcript = Inr segs"
  shows "get_transcript up video_id =
           (Inr (if segs = [] then None else Some (join '' '' (map entry_text segs))),
            [ListTranscripts video_id, FindManuallyCreated transcript_list [''en''],
             Fetch transcript])"
  using assms by (simp add: run_defs)

theorem manual_transcript_first_witness:
  "get_transcript demo ''both'' =
     (Inr (Some ''a b c''),
      [ListTranscripts ''both'', FindManuallyCreated [manual_abc, auto_en] [''en''],
       Fetch manual_abc])"
  using manual_transcript_first
    [of demo "''both''" "[manual_abc, auto_en]" manual_abc "[seg ''a'', seg ''b'', seg ''c'']"]
  by (simp add: demo_defs)

text \<open>
  C1 as stated fails. The video \<open>manual-down\<close> has a manually created English
  transcript whose fetch raises: the code goes on to the generated transcript and returns
  its text. The video \<open>manual-empty\<close> has a manually created English transcript of
  zero segments: the code returns \<^verbatim>\<open>None\<close>, not that transcript's (empty) text.
\<close>

theorem manual_transcript_not_always_returned:
  "find_manually_created_transcript demo [manual_down, auto_en] [''en''] = Inr manual_down
   \<and> fetch demo manual_down = Inl (OtherException ''CouldNotRetrieveTranscript'')
   \<and> get_transcript demo ''manual-down'' =
       (Inr (Some ''auto captions''),
        [ListTranscripts ''manual-down'', FindManuallyCreated [manual_down, auto_en] [''en''],
         Fetch manual_down, FindGenerated [manual_down, auto_en] [''en''], Fetch auto_en])
   \<and> find_manually_created_transcript demo [manual_empty, auto_en] [''en''] = Inr manual_empty
   \<and> fetch demo manual_empty = Inr []
   \<and> get_transcript demo ''manual-empty'' =
       (Inr None,
        [ListTranscripts ''manual-empty'', FindManuallyCreated [manual_empty, auto_en] [''en''],
         Fetch manual_empty])"
  by (simp add: run_defs demo_defs)

text \<open>
  C2, as amended. When there is no manually created English transcript (the lookup
  raises) and the lookup and the fetch of the generated English transcript succeed,
  \<^verbatim>\<open>get_transcript\<close> makes four calls (the listing, the two lookups, that fetch) and
  no other: it does not list the transcripts and translates nothing. It returns the
  texts of the generated transcript's segments joined, when there is at least one
  segment, and \<^verbatim>\<open>None\<close> when there is none.
\<close>

theorem generated_transcript_second:
  assumes "list_transcripts up video_id = Inr transcript_list"
    and "find_manually_created_transcript up transcript_list [''en''] = Inl e"
    and "find_generated_transcript up transcript_list [''en''] = Inr transcript"
    and "fetch up transcript = Inr segs"
  shows "get_transcript up video_id =
           (Inr (if segs = [] then None else Some (join '' '' (map entry_text segs))),
            [ListTranscripts video_id, FindManuallyCreated transcript_list [''en''],
             FindGenerated transcript_list [''en''], Fetch transcript])"
  using assms by (simp add: run_defs)

theorem generated_transcript_second_witness:
  "get_transcript demo ''auto'' =
     (Inr (Some ''auto captions''),
      [ListTranscripts ''auto'', FindManuallyCreated [manual_de, auto_en] [''en''],
       FindGenerated [manual_de, auto_en] [''en''], Fetch auto_en])"
  using generated_transcript_second
    [of demo "''auto''" "[manual_de, auto_en]" "OtherException ''NoTranscriptFound''" auto_en
        "[seg ''auto'', seg ''captions'']"]
  by (simp add: demo_defs)

text \<open>
  C2 as stated fails. The only English transcript of the video \<open>auto-down\<close> is the
  generated one, and its fetch raises: the code goes on to the translation of the first
  listed transcript (a German one) and returns that. The only English transcript of
  \<open>auto-empty\<close> is a generated one of zero segments: the code returns \<^verbatim>\<open>None\<close>.
\<close>

theorem generated_transcript_not_always_returned:
  "find_manually_created_transcript demo [manual_de, auto_down] [''en'']
     = Inl (OtherException ''NoTranscriptFound'')
   \<and> find_generated_transcript demo [manual_de, auto_down] [''en''] = Inr auto_down
   \<and> fetch demo auto_down = Inl (OtherException ''CouldNotRetrieveTranscript'')
   \<and> fst (get_transcript demo ''auto-down'') = Inr (Some ''good day'')
   \<and> Translate manual_de ''en'' \<in> set (snd (get_transcript demo ''auto-down''))
   \<and> find_manually_created_transcript demo [manual_de, auto_empty] [''en'']
     = Inl (OtherException ''NoTranscriptFound'')
   \<and> find_generated_transcript demo [manual_de, auto_empty] [''en''] = Inr auto_empty
   \<and> fetch demo auto_empty = Inr []
   \<and> get_transcript demo ''auto-empty'' =
       (Inr None,
        [ListTranscripts ''auto-empty'', FindManuallyCreated [manual_de, auto_empty] [''en''],
         FindGenerated [manual_de, auto_empty] [''en''], Fetch auto_empty])"
  by (simp add: run_defs demo_defs)

text \<open>
  C3, as amended. When neither English lookup finds a transcript and the listing is not
  empty, the code translates the first listed transcript to English. When that
  translation and its fetch succeed, \<^verbatim>\<open>get_transcript\<close> returns the texts of the
  translated segments joined, when there is at least one segment, and \<^verbatim>\<open>None\<close> when
  there is none; it makes no call about any other listed transcript.
\<close>

theorem first_listed_translated:
  assumes "list_transcripts up video_id = Inr transcript_list"
    and "find_manually_created_transcript up transcript_list [''en''] = Inl e1"
    and "find_generated_transcript up transcript_list [''en''] = Inl e2"
    and "list_of up transcript_list = Inr (first # others)"
    and "translate up first ''en'' = Inr transcript"
    and "fetch up transcript = Inr segs"
  shows "get_transcript up video_id =
           (Inr (if segs = [] then None else Some (join '' '' (map entry_text segs))),
            [ListTranscripts video_id, FindManuallyCreated transcript_list [''en''],
             FindGenerated transcript_list [''en''], ListOf transcript_list,
             Translate first ''en'', Fetch transcript])"
  using assms by (simp add: run_defs)

theorem first_listed_translated_witness:
  "fst (get_transcript demo ''foreign'') = Inr (Some ''good day'')
   \<and> snd (get_transcript demo ''foreign'') =
       [ListTranscripts ''foreign'', FindManuallyCreated [manual_de, manual_fr] [''en''],
        FindGenerated [manual_de, manual_fr] [''en''], ListOf [manual_de, manual_fr],
        Translate manual_de ''en'',
        Fetch \<lparr>language_code = ''en'', is_generated = False,
               fetched = Inr [seg ''good'', seg ''day''], translated = not_translatable\<rparr>]"
  using first_listed_translated
    [of demo "''foreign''" "[manual_de, manual_fr]" "OtherException ''NoTranscriptFound''"
        "OtherException ''NoTranscriptFound''" manual_de "[manual_fr]"
        "\<lparr>language_code = ''en'', is_generated = False,
          fetched = Inr [seg ''good'', seg ''day''], translated = not_translatable\<rparr>"
        "[seg ''good'', seg ''day'']"]
  by (simp add: demo_defs)

text \<open>
  C3 as stated fails. The video \<open>foreign-fixed\<close> has no English transcript and two
  transcripts in other languages; the first listed one cannot be translated, the second
  can. The code tries the first one only and returns \<^verbatim>\<open>None\<close>. The first listed
  transcript of \<open>foreign-silent\<close> translates to zero segments: \<^verbatim>\<open>None\<close> again.
\<close>

theorem other_language_not_always_translated:
  "list_of demo [manual_de_fixed, manual_fr] = Inr [manual_de_fixed, manual_fr]
   \<and> translate demo manual_de_fixed ''en'' = Inl (OtherException ''NotTranslatable'')
   \<and> translate demo manual_fr ''en'' =
       Inr \<lparr>language_code = ''en'', is_generated = False,
            fetched = Inr [seg ''hello''], translated = not_translatable\<rparr>
   \<and> get_transcript demo ''foreign-fixed'' =
       (Inr None,
        [ListTranscripts ''foreign-fixed'',
         FindManuallyCreated [manual_de_fixed, manual_fr] [''en''],
         FindGenerated [manual_de_fixed, manual_fr] [''en''],
         ListOf [manual_de_fixed, manual_fr], Translate manual_de_fixed ''en''])
   \<and> translate demo manual_de_silent ''en'' =
       Inr \<lparr>language_code = ''en'', is_generated = False,
            fetched = Inr [], translated = not_translatable\<rparr>
   \<and> fst (get_transcript demo ''foreign-silent'') = Inr None"
  by (simp add: run_defs demo_defs)

text \<open>
  C4. For a video of which the library has no transcript at all, \<^verbatim>\<open>get_transcript\<close>
  returns \<^verbatim>\<open>None\<close>, its one failure value: it neither raises nor returns a text.
\<close>

theorem no_transcripts_returns_None:
  "no_transcripts up video_id \<Longrightarrow> fst (get_transcript up video_id) = Inr None"
proof (cases "list_transcripts up video_id")
  case (Inr transcript_list)
  assume "no_transcripts up video_id"
  with Inr obtain e1 e2 where
    "find_manually_created_transcript up transcript_list [''en''] = Inl e1"
    "find_generated_transcript up transcript_list [''en''] = Inl e2"
    "list_of up transcript_list = Inr []"
    by (auto simp: no_transcripts_def isl_def)
  with Inr show ?thesis
    by (simp add: run_defs)
next
  case (Inl e)
  assume none: "no_transcripts up video_id"
  show ?thesis
  proof (cases "e = AttributeError")
    case False
    with Inl show ?thesis
      by (simp add: run_defs)
  next
    case True
    with Inl none obtain a b c d where
      "api_get_transcript up video_id (Some [''en'']) = Inl a"
      "api_get_transcript up video_id (Some [''en-US'']) = Inl b"
      "api_get_transcript up video_id (Some [''en-GB'']) = Inl c"
      "api_get_transcript up video_id None = Inl d"
      by (auto simp: no_transcripts_def isl_def)
    with Inl True show ?thesis
      by (simp add: run_defs)
  qed
qed

theorem no_transcripts_returns_None_witness:
  "no_transcripts demo ''none'' \<and> fst (get_transcript demo ''none'') = Inr None
   \<and> no_transcripts demo ''nowhere'' \<and> fst (get_transcript demo ''nowhere'') = Inr None
   \<and> no_transcripts demo_older ''none'' \<and> fst (get_transcript demo_older ''none'') = Inr None"
proof -
  have a: "no_transcripts demo ''none''"
    and b: "no_transcripts demo ''nowhere''"
    and c: "no_transcripts demo_older ''none''"
    by (simp_all add: no_transcripts_def demo_defs)
  show ?thesis
    using a b c no_transcripts_returns_None [OF a] no_transcripts_returns_None [OF b]
      no_transcripts_returns_None [OF c]
    by simp
qed

text \<open>
  C5. Whenever \<^verbatim>\<open>get_transcript\<close> returns a text, that text is the join, with one space
  between two consecutive segments and in the order the library gave them, of the texts
  of the segments that the last call of the run delivered. Segments \<open>a\<close>, \<open>b\<close>, \<open>c\<close>
  give \<open>a b c\<close>; joining two non-empty runs of segments puts one space between them.
\<close>

theorem text_is_joined_segments:
  "(fst (get_transcript up video_id) = Inr (Some s) \<longrightarrow>
      (\<exists>segs. delivered up (last (snd (get_transcript up video_id))) = Some segs \<and>
              s = join '' '' (map entry_text segs)))
   \<and> join '' '' (map entry_text [seg ''a'', seg ''b'', seg ''c'']) = ''a b c''
   \<and> (xs \<noteq> [] \<and> ys \<noteq> [] \<longrightarrow> join '' '' (xs @ ys) = join '' '' xs @ '' '' @ join '' '' ys)"
proof -
  obtain r cs where run: "get_transcript up video_id = (r, cs)"
    by (cases "get_transcript up video_id")
  from get_transcript_last [OF run] run
  have "fst (get_transcript up video_id) = Inr (Some s) \<longrightarrow>
      (\<exists>segs. delivered up (last (snd (get_transcript up video_id))) = Some segs \<and>
              s = join '' '' (map entry_text segs))"
    by (auto simp: combine_Some split: option.splits if_splits)
  then show ?thesis
    by (simp add: seg_def join_append)
qed

theorem text_is_joined_segments_witness:
  "fst (get_transcript demo ''both'') = Inr (Some ''a b c'')
   \<and> delivered demo (last (snd (get_transcript demo ''both'')))
       = Some [seg ''a'', seg ''b'', seg ''c'']
   \<and> join '' '' ([''a''] @ [''b'', ''c'']) = join '' '' [''a''] @ '' '' @ join '' '' [''b'', ''c'']"
  using text_is_joined_segments [of demo "''both''" "''a b c''" "[''a'']" "[''b'', ''c'']"]
  by (simp add: run_defs demo_defs)

text \<open>
  C6. Whatever the library does at any step (each call may raise, with any exception),
  \<^verbatim>\<open>get_transcript\<close> returns: no exception reaches its caller. A first step that fails
  (its lookup or its fetch raises) is followed by the second, and a second step that
  fails by the third.
\<close>

theorem get_transcript_never_raises:
  "(\<exists>r. fst (get_transcript up video_id) = Inr r)
   \<and> (list_transcripts up video_id = Inr transcript_list \<and>
       step_fails up (find_manually_created_transcript up transcript_list [''en'']) \<longrightarrow>
       FindGenerated transcript_list [''en''] \<in> set (snd (get_transcript up video_id)))
   \<and> (list_transcripts up video_id = Inr transcript_list \<and>
       step_fails up (find_manually_created_transcript up transcript_list [''en'']) \<and>
       step_fails up (find_generated_transcript up transcript_list [''en'']) \<longrightarrow>
       ListOf transcript_list \<in> set (snd (get_transcript up video_id)))"
  using get_transcript_returns [of up video_id] get_transcript_calls [of up video_id transcript_list]
    find_and_fetch_second [of up transcript_list] find_and_fetch_third [of up transcript_list]
  by auto

theorem get_transcript_never_raises_witness:
  "fst (get_transcript demo ''auto-down'') = Inr (Some ''good day'')
   \<and> step_fails demo (find_manually_created_transcript demo [manual_de, auto_down] [''en''])
   \<and> step_fails demo (find_generated_transcript demo [manual_de, auto_down] [''en''])
   \<and> FindGenerated [manual_de, auto_down] [''en''] \<in> set (snd (get_transcript demo ''auto-down''))
   \<and> ListOf [manual_de, auto_down] \<in> set (snd (get_transcript demo ''auto-down''))"
  using get_transcript_never_raises [of demo "''auto-down''" "[manual_de, auto_down]"]
  by (simp add: run_defs demo_defs step_fails_def step_error_def)

text \<open>
  C7. The loop of \<^verbatim>\<open>main\<close> goes through every video, whatever \<^verbatim>\<open>get_transcript\<close>
  gave for the ones before, and ends normally: the file holds the two heading lines and
  then one record per video of the input, in the order of the input, each video is
  counted once, as successful or as failed, and \<^verbatim>\<open>get_transcript\<close> ran for each.
  With three videos of which the second has no transcript, the report holds a success
  record, a failure record and a success record, in that order.
\<close>

theorem report_one_record_per_video:
  "main up video_data =
     Inr \<lparr>written =
            [''Transcripts from 3Blue1Brown\<newline>'', ''==================================================\<newline>\<newline>''] @
            concat (map (\<lambda>(video_id, video_title).
                           record_lines video_id video_title (returned up video_id)) video_data),
          successful =
            length (filter (\<lambda>(video_id, video_title). got_text (returned up video_id)) video_data),
          failed =
            length (filter (\<lambda>(video_id, video_title). \<not> got_text (returned up video_id)) video_data),
          calls =
            concat (map (\<lambda>(video_id, video_title). snd (get_transcript up video_id)) video_data)\<rparr>
   \<and> length video_data =
       length (filter (\<lambda>(video_id, video_title). got_text (returned up video_id)) video_data) +
       length (filter (\<lambda>(video_id, video_title). \<not> got_text (returned up video_id)) video_data)
   \<and> main demo [(''both'', ''First''), (''none'', ''Second''), (''auto'', ''Third'')] =
     Inr \<lparr>written =
            [''Transcripts from 3Blue1Brown\<newline>'', ''==================================================\<newline>\<newline>'',
             ''VIDEO: First\<newline>'', ''URL: https://youtube.com/watch?v=both\<newline>'', ''------------------------------\<newline>'',
             ''a b c'', ''\<newline>\<newline>==================================================\<newline>\<newline>'',
             ''FAILED TO GET TRANSCRIPT: Second\<newline>'', ''URL: https://youtube.com/watch?v=none\<newline>'',
             ''------------------------------\<newline>\<newline>'',
             ''VIDEO: Third\<newline>'', ''URL: https://youtube.com/watch?v=auto\<newline>'', ''------------------------------\<newline>'',
             ''auto captions'', ''\<newline>\<newline>==================================================\<newline>\<newline>''],
          successful = 2, failed = 1,
          calls =
            [ListTranscripts ''both'', FindManuallyCreated [manual_abc, auto_en] [''en''],
             Fetch manual_abc,
             ListTranscripts ''none'', FindManuallyCreated [] [''en''], FindGenerated [] [''en''],
             ListOf [],
             ListTranscripts ''auto'', FindManuallyCreated [manual_de, auto_en] [''en''],
             FindGenerated [manual_de, auto_en] [''en''], Fetch auto_en]\<rparr>"
proof -
  have general: "main up video_data =
     Inr \<lparr>written =
            [''Transcripts from 3Blue1Brown\<newline>'', ''==================================================\<newline>\<newline>''] @
            concat (map (\<lambda>(video_id, video_title).
                           record_lines video_id video_title (returned up video_id)) video_data),
          successful =
            length (filter (\<lambda>(video_id, video_title). got_text (returned up video_id)) video_data),
          failed =
            length (filter (\<lambda>(video_id, video_title). \<not> got_text (returned up video_id)) video_data),
          calls =
            concat (map (\<lambda>(video_id, video_title). snd (get_transcript up video_id)) video_data)\<rparr>"
    for up :: "('l, 't) upstream" and video_data
    by (simp add: main_def main_loop_closed_form CHANNEL_NAME_def equals)
  have count: "length video_data =
       length (filter (\<lambda>(video_id, video_title). got_text (returned up video_id)) video_data) +
       length (filter (\<lambda>(video_id, video_title). \<not> got_text (returned up video_id)) video_data)"
    by (induction video_data) auto
  have both: "returned demo ''both'' = Some ''a b c''"
    and none: "returned demo ''none'' = None"
    and auto: "returned demo ''auto'' = Some ''auto captions''"
    by (simp_all add: returned_def run_defs demo_defs)
  have calls_both: "snd (get_transcript demo ''both'') =
      [ListTranscripts ''both'', FindManuallyCreated [manual_abc, auto_en] [''en''], Fetch manual_abc]"
    and calls_none: "snd (get_transcript demo ''none'') =
      [ListTranscripts ''none'', FindManuallyCreated [] [''en''], FindGenerated [] [''en''], ListOf []]"
    and calls_auto: "snd (get_transcript demo ''auto'') =
      [ListTranscripts ''auto'', FindManuallyCreated [manual_de, auto_en] [''en''],
       FindGenerated [manual_de, auto_en] [''en''], Fetch auto_en]"
    by (simp_all add: run_defs demo_defs)
  have example: "main demo [(''both'', ''First''), (''none'', ''Second''), (''auto'', ''Third'')] =
     Inr \<lparr>written =
            [''Transcripts from 3Blue1Brown\<newline>'', ''==================================================\<newline>\<newline>'',
             ''VIDEO: First\<newline>'', ''URL: https://youtube.com/watch?v=both\<newline>'', ''------------------------------\<newline>'',
             ''a b c'', ''\<newline>\<newline>==================================================\<newline>\<newline>'',
             ''FAILED TO GET TRANSCRIPT: Second\<newline>'', ''URL: https://youtube.com/watch?v=none\<newline>'',
             ''------------------------------\<newline>\<newline>'',
             ''VIDEO: Third\<newline>'', ''URL: https://youtube.com/watch?v=auto\<newline>'', ''------------------------------\<newline>'',
             ''auto captions'', ''\<newline>\<newline>==================================================\<newline>\<newline>''],
          successful = 2, failed = 1,
          calls =
            [ListTranscripts ''both'', FindManuallyCreated [manual_abc, auto_en] [''en''],
             Fetch manual_abc,
             ListTranscripts ''none'', FindManuallyCreated [] [''en''], FindGenerated [] [''en''],
             ListOf [],
             ListTranscripts ''auto'', FindManuallyCreated [manual_de, auto_en] [''en''],
             FindGenerated [manual_de, auto_en] [''en''], Fetch auto_en]\<rparr>"
    by (simp add: general both none auto calls_both calls_none calls_auto record_lines_def
        dashes equals)
  from general count example show ?thesis
    by blast
qed

text \<open>
  C8, as amended. What the loop writes for a video is, in this order: a heading line with
  the video's title (\<open>VIDEO: \<close> before it when there is a text, the failure marker
  \<open>FAILED TO GET TRANSCRIPT: \<close> otherwise), the line \<open>URL: \<close> with the video's URL
  \<open>https://youtube.com/watch?v=\<close> and its id, and a line of 30 dashes; then, when there is
  a text, the text, an empty line and a line of 50 equals signs with an empty line after
  it, and otherwise an empty line.
\<close>

theorem record_layout:
  "\<exists>rep'. main_loop up [(video_id, video_title)] rep = Inr rep' \<and>
     concat (written rep') =
       concat (written rep) @
       (if got_text (returned up video_id) then ''VIDEO: '' else ''FAILED TO GET TRANSCRIPT: '') @
       video_title @ ''\<newline>'' @
       ''URL: https://youtube.com/watch?v='' @ video_id @ ''\<newline>'' @
       ''------------------------------\<newline>'' @
       (if got_text (returned up video_id)
        then the (returned up video_id) @ ''\<newline>\<newline>'' @ ''==================================================\<newline>'' @ ''\<newline>''
        else ''\<newline>'')"
  by (simp add: main_loop_closed_form record_lines_def dashes equals)

text \<open>
  C8 as stated fails on the order: in the record of a video with a text, the URL stands
  before the transcript, not after it, and what follows the transcript is the line of
  equals signs.
\<close>

theorem url_precedes_transcript:
  "main demo [(''both'', ''First'')] =
     Inr \<lparr>written =
            [''Transcripts from 3Blue1Brown\<newline>'', ''==================================================\<newline>\<newline>'',
             ''VIDEO: First\<newline>'', ''URL: https://youtube.com/watch?v=both\<newline>'', ''------------------------------\<newline>'',
             ''a b c'', ''\<newline>\<newline>==================================================\<newline>\<newline>''],
          successful = 1, failed = 0,
          calls =
            [ListTranscripts ''both'', FindManuallyCreated [manual_abc, auto_en] [''en''],
             Fetch manual_abc]\<rparr>
   \<and> \<not> comes_after ''a b c'' ''URL: https://youtube.com/watch?v=both\<newline>''
         [''Transcripts from 3Blue1Brown\<newline>'', ''==================================================\<newline>\<newline>'',
          ''VIDEO: First\<newline>'', ''URL: https://youtube.com/watch?v=both\<newline>'', ''------------------------------\<newline>'',
          ''a b c'', ''\<newline>\<newline>==================================================\<newline>\<newline>'']
   \<and> comes_after ''URL: https://youtube.com/watch?v=both\<newline>'' ''a b c''
         [''Transcripts from 3Blue1Brown\<newline>'', ''==================================================\<newline>\<newline>'',
          ''VIDEO: First\<newline>'', ''URL: https://youtube.com/watch?v=both\<newline>'', ''------------------------------\<newline>'',
          ''a b c'', ''\<newline>\<newline>==================================================\<newline>\<newline>'']"
proof -
  have both: "get_transcript demo ''both'' =
      (Inr (Some ''a b c''),
       [ListTranscripts ''both'', FindManuallyCreated [manual_abc, auto_en] [''en''],
        Fetch manual_abc])"
    by (simp add: run_defs demo_defs)
  show ?thesis
    by (simp add: main_def both record_lines_def CHANNEL_NAME_def dashes equals)
qed

text \<open>
  C9, as amended. In the third step only the first listed transcript is tried. When the
  two English steps have failed and the translation of the first listed transcript, or
  the fetch of that translation, raises an exception other than \<^verbatim>\<open>AttributeError\<close>,
  \<^verbatim>\<open>get_transcript\<close> returns \<^verbatim>\<open>None\<close>, and the calls it made are the listing, those
  of the two English steps, the listing of the transcripts and those of the translation
  step: none about another listed transcript.
\<close>

theorem translate_fallback_first_only:
  assumes lt: "list_transcripts up video_id = Inr transcript_list"
    and m: "step_error up (find_manually_created_transcript up transcript_list [''en'']) = Some e1"
    and g: "step_error up (find_generated_transcript up transcript_list [''en'']) = Some e2"
    and l: "list_of up transcript_list = Inr (first # others)"
    and t: "step_error up (translate up first ''en'') = Some e"
    and e: "e \<noteq> AttributeError"
  shows "get_transcript up video_id =
           (Inr None,
            ListTranscripts video_id #
            step_calls (FindManuallyCreated transcript_list [''en''])
              (find_manually_created_transcript up transcript_list [''en'']) @
            step_calls (FindGenerated transcript_list [''en''])
              (find_generated_transcript up transcript_list [''en'']) @
            ListOf transcript_list #
            step_calls (Translate first ''en'') (translate up first ''en''))"
  using step_error_Some [OF m] step_error_Some [OF g] step_error_Some [OF t] lt l e
  by (elim disjE exE conjE; simp add: run_defs step_calls_def)

theorem translate_fallback_first_only_witness:
  "get_transcript demo ''foreign-fixed'' =
     (Inr None,
      [ListTranscripts ''foreign-fixed'',
       FindManuallyCreated [manual_de_fixed, manual_fr] [''en''],
       FindGenerated [manual_de_fixed, manual_fr] [''en''],
       ListOf [manual_de_fixed, manual_fr], Translate manual_de_fixed ''en''])"
  using translate_fallback_first_only
    [of demo "''foreign-fixed''" "[manual_de_fixed, manual_fr]"
        "OtherException ''NoTranscriptFound''" "OtherException ''NoTranscriptFound''"
        manual_de_fixed "[manual_fr]" "OtherException ''NotTranslatable''"]
  by (simp add: demo_defs step_error_def step_calls_def)

text \<open>
  C9 as stated fails when the exception is an \<^verbatim>\<open>AttributeError\<close>: it leaves the inner
  \<^verbatim>\<open>try\<close> through \<^verbatim>\<open>except AttributeError\<close>, and the code goes on with the requests
  of the older library. The video \<open>regional\<close> has one transcript, in \<open>en-US\<close>; the fetch
  of its translation raises \<^verbatim>\<open>AttributeError\<close>, and \<^verbatim>\<open>get_transcript\<close> returns the
  text that the request for \<open>en-US\<close> gives.
\<close>

theorem translate_AttributeError_goes_on:
  "list_of demo [manual_en_US] = Inr [manual_en_US]
   \<and> translate demo manual_en_US ''en'' =
       Inr \<lparr>language_code = ''en'', is_generated = False,
            fetched = Inl AttributeError, translated = not_translatable\<rparr>
   \<and> fetch demo \<lparr>language_code = ''en'', is_generated = False,
                  fetched = Inl AttributeError, translated = not_translatable\<rparr>
       = Inl AttributeError
   \<and> get_transcript demo ''regional'' =
       (Inr (Some ''howdy''),
        [ListTranscripts ''regional'', FindManuallyCreated [manual_en_US] [''en''],
         FindGenerated [manual_en_US] [''en''], ListOf [manual_en_US],
         Translate manual_en_US ''en'',
         Fetch \<lparr>language_code = ''en'', is_generated = False,
                fetched = Inl AttributeError, translated = not_translatable\<rparr>,
         ApiGetTranscript ''regional'' (Some [''en'']),
         ApiGetTranscript ''regional'' (Some [''en-US''])])"
  by (simp add: run_defs demo_defs)

text \<open>
  C10, as amended. When the call that a run of \<^verbatim>\<open>get_transcript\<close> ends with delivers a
  transcript of zero segments, the function returns \<^verbatim>\<open>None\<close>; and a text that it
  returns comes from at least one segment, delivered by that last call.
\<close>

theorem zero_segments_returns_None:
  "(delivered up (last (snd (get_transcript up video_id))) = Some [] \<longrightarrow>
      fst (get_transcript up video_id) = Inr None)
   \<and> (fst (get_transcript up video_id) = Inr (Some s) \<longrightarrow>
      (\<exists>segs. segs \<noteq> [] \<and>
              delivered up (last (snd (get_transcript up video_id))) = Some segs))"
proof -
  obtain r cs where run: "get_transcript up video_id = (r, cs)"
    by (cases "get_transcript up video_id")
  from get_transcript_last [OF run] run show ?thesis
    by (auto simp: combine_Some split: option.splits if_splits)
qed

theorem zero_segments_returns_None_witness:
  "delivered demo (last (snd (get_transcript demo ''manual-empty''))) = Some []
   \<and> fst (get_transcript demo ''manual-empty'') = Inr None
   \<and> fst (get_transcript demo ''both'') = Inr (Some ''a b c'')
   \<and> delivered demo (last (snd (get_transcript demo ''both'')))
       = Some [seg ''a'', seg ''b'', seg ''c'']"
  using zero_segments_returns_None [of demo "''manual-empty''" "[]"]
    zero_segments_returns_None [of demo "''both''" "''a b c''"]
  by (simp add: run_defs demo_defs)

text \<open>
  C10 as stated fails for a retrieval that is not the last one. With the requests of the
  older library, the request for \<open>en\<close> succeeds with zero segments; the code then makes
  the request without a language (\<^verbatim>\<open>if not transcript_data\<close>, line 114) and returns
  the text that one gives.
\<close>

theorem empty_answer_is_retried:
  "api_get_transcript flaky ''v'' (Some [''en'']) = Inr []
   \<and> delivered flaky (ApiGetTranscript ''v'' (Some [''en''])) = Some []
   \<and> get_transcript flaky ''v'' =
       (Inr (Some ''late text''),
        [ListTranscripts ''v'', ApiGetTranscript ''v'' (Some [''en'']),
         ApiGetTranscript ''v'' None])"
  by (simp add: run_defs flaky_def seg_def)

end
